theory Spec2Isabelle
  imports Main
begin

section \<open>Values of the program\<close>

text \<open>
  The model follows \<^verbatim>\<open>client/src/www/app/outline_server_repository/server.ts\<close>:
  the class \<^verbatim>\<open>OutlineServer\<close> (constructor, \<^verbatim>\<open>address\<close>, \<^verbatim>\<open>connect\<close>, \<^verbatim>\<open>disconnect\<close>)
  and the function \<^verbatim>\<open>fetchTunnelConfig\<close>.

  Strings are \<^typ>\<open>string\<close>, lists of 8-bit characters. A thrown JavaScript value is a
  value of the type \<open>thrown\<close>; a call that may throw returns \<open>thrown + 'a\<close>, with
  \<open>Inl\<close> for the thrown value. \<^verbatim>\<open>await\<close> is sequencing: the model runs each
  operation as one control flow.
\<close>

subsection \<open>Thrown values\<close>

text \<open>
  Modelled from the spec: the classes of \<^verbatim>\<open>../../model/errors\<close> and
  \<^verbatim>\<open>../../model/platform_error\<close> are not part of the sources at hand. The spec lists
  them as distinct kinds of one closed taxonomy, so a thrown value carries the tag of
  the kind it is an instance of, and \<^verbatim>\<open>v instanceof K\<close> is \<open>cls v = K\<close>. The tag
  \<open>SessionProviderError\<close> stands for that class and the kinds derived from it,
  \<open>OtherValue\<close> for any value of no kind named in this file (a plain object of native
  code, a mapped native error, an \<^verbatim>\<open>Error\<close>).

  The fields are the ones the source reads or writes: the message, the \<^verbatim>\<open>errorCode\<close>
  property (\<open>None\<close> when the value has none) and the \<^verbatim>\<open>cause\<close> option of the
  constructor.

  A \<^verbatim>\<open>catch\<close> variable is untyped, and a promise can reject with \<^verbatim>\<open>undefined\<close> or
  \<^verbatim>\<open>null\<close>: that is the value \<open>Nullish\<close>. It is an instance of no class, so
  \<^verbatim>\<open>instanceof\<close> is false of it; it has no properties, and reading one throws a
  \<^verbatim>\<open>TypeError\<close>, so the functions below take the case \<open>Nullish\<close> apart before they
  read a field.
\<close>

datatype error_class =
    PlatformError
  | SessionProviderError
  | ServerAccessKeyInvalid
  | ProxyConnectionFailure
  | RegularNativeError
  | TypeError
  | OtherValue

datatype thrown =
    Nullish
  | Thrown (cls: error_class) (message: string) (errorCode: "int option") (cause: "thrown option")
where
  "cls Nullish = OtherValue"

subsection \<open>Strings\<close>

text \<open>
  \<^verbatim>\<open>String.prototype.trim\<close> removes white space and line terminators from both ends.
  Among 8-bit characters these are TAB, LF, VT, FF, CR, SPACE and NBSP.
\<close>

definition isWhiteSpace :: "char \<Rightarrow> bool" where
  "isWhiteSpace c = ((of_char c :: nat) \<in> {9, 10, 11, 12, 13, 32, 160})"

definition trim :: "string \<Rightarrow> string" where
  "trim s = rev (dropWhile isWhiteSpace (rev (dropWhile isWhiteSpace s)))"

text \<open>\<^verbatim>\<open>String.prototype.includes\<close>: the second string occurs in the first.\<close>

fun includesStr :: "string \<Rightarrow> string \<Rightarrow> bool" where
  "includesStr [] sub = (sub = [])"
| "includesStr (c # cs) sub = (take (length sub) (c # cs) = sub \<or> includesStr cs sub)"

text \<open>
  \<^verbatim>\<open>Number.prototype.toString\<close> on a port number, a non-negative integer: its decimal
  digits.
\<close>

definition digit :: "nat \<Rightarrow> char" where
  "digit d = ''0123456789'' ! (d mod 10)"

fun toString :: "nat \<Rightarrow> string" where
  "toString n = (if n < 10 then [digit n] else toString (n div 10) @ [digit n])"

declare toString.simps [simp del]

subsection \<open>Configurations\<close>

text \<open>
  \<^verbatim>\<open>URL\<close>, with the properties the source reads: \<^verbatim>\<open>hostname\<close>, \<^verbatim>\<open>port\<close> (a string)
  and the text \<^verbatim>\<open>toString()\<close> returns.
\<close>

record url =
  hostname :: string
  port :: string
  href :: string

record endpoint =
  host :: string
  portNumber :: nat

text \<open>
  \<^verbatim>\<open>TunnelConfigJson\<close>: the first hop and the rest of the transport parameters, which
  the source only passes on.
\<close>

record tunnel_config =
  firstHop :: endpoint
  transport :: string

text \<open>What \<^verbatim>\<open>parseAccessKey\<close> returns: an instance of one of two classes.\<close>

datatype service_config =
    DynamicServiceConfig (embeddedName: "string option") (transportConfigLocation: url)
  | StaticServiceConfig (embeddedName: "string option") (tunnelConfig: tunnel_config)

datatype server_type = DYNAMIC_CONNECTION | STATIC_CONNECTION

text \<open>\<^verbatim>\<open>StartRequestJson\<close>; the configuration is \<open>None\<close> when the source passes \<^verbatim>\<open>undefined\<close>.\<close>

record start_request =
  requestId :: string
  requestName :: string
  config :: "tunnel_config option"

subsection \<open>Collaborators\<close>

text \<open>
  The functions and objects the class receives or imports, none of which is defined in
  the source file: \<^verbatim>\<open>parseAccessKey\<close> and \<^verbatim>\<open>parseTunnelConfig\<close> of \<^verbatim>\<open>./config\<close>,
  \<^verbatim>\<open>net.joinHostPort\<close>, the \<^verbatim>\<open>localize\<close> argument, \<^verbatim>\<open>urlFetcher.fetch\<close>,
  \<^verbatim>\<open>vpnApi.start\<close> and \<^verbatim>\<open>vpnApi.stop\<close> (\<open>None\<close> when the promise resolves, \<open>Some v\<close>
  when it rejects with \<open>v\<close>), and \<^verbatim>\<open>errors.fromErrorCode\<close>, whose value here is what
  \<^verbatim>\<open>throw errors.fromErrorCode(c)\<close> ends up throwing. Each is called at most once in one
  operation, so one operation sees each of them as a function.
\<close>

record env =
  parseAccessKey :: "string \<Rightarrow> thrown + service_config"
  localize :: "string \<Rightarrow> string"
  joinHostPort :: "string \<Rightarrow> string \<Rightarrow> string"
  fetch :: "string \<Rightarrow> thrown + string"
  parseTunnelConfig :: "string \<Rightarrow> thrown + tunnel_config"
  start :: "start_request \<Rightarrow> thrown option"
  stop :: "string \<Rightarrow> thrown option"
  fromErrorCode :: "int \<Rightarrow> thrown"

text \<open>
  Modelled from the spec: \<^verbatim>\<open>net.joinHostPort\<close> of \<^verbatim>\<open>@outline/infrastructure/net\<close> is not
  part of the sources at hand. The spec describes the joined address as \<^verbatim>\<open>host:port\<close>,
  and as the host alone when the port is the default proxy port. The spec gives no number
  for that port, so it is the first argument here. The operations below take the function
  from the environment; only the property of claim C4 refers to this definition.
\<close>

definition joinHostPort_spec :: "string \<Rightarrow> string \<Rightarrow> string \<Rightarrow> string" where
  "joinHostPort_spec defaultPort h p = (if p = defaultPort then h else h @ '':'' @ p)"

text \<open>The calls an operation makes on the fetcher and the engine, in order.\<close>

datatype event = Fetch string | Start start_request | Stop string

section \<open>The server\<close>

text \<open>
  The fields of \<^verbatim>\<open>OutlineServer\<close>. \<^verbatim>\<open>tunnelConfigLocation\<close> is assigned for a dynamic key
  only and \<^verbatim>\<open>staticTunnelConfig\<close> for a static key only; \<^verbatim>\<open>errorMessageId\<close> is optional
  and never assigned by the class.
\<close>

record server =
  serverId :: string
  name :: string
  accessKey :: string
  serverType :: server_type
  tunnelConfigLocation :: "url option"
  displayAddress :: string
  staticTunnelConfig :: "tunnel_config option"
  errorMessageId :: "string option"

text \<open>
  \<^verbatim>\<open>if (!this.name) this.name = d\<close>: the name is replaced when it is \<^verbatim>\<open>undefined\<close>,
  \<^verbatim>\<open>null\<close> (both \<open>None\<close>) or the empty string.
\<close>

definition orDefault :: "string option \<Rightarrow> string \<Rightarrow> string" where
  "orDefault n d = (case n of None \<Rightarrow> d | Some s \<Rightarrow> if s = [] then d else s)"

text \<open>
  The constructor. The \<^verbatim>\<open>name\<close> argument is \<open>None\<close> for \<^verbatim>\<open>null\<close> or \<^verbatim>\<open>undefined\<close>;
  \<^verbatim>\<open>name ?? serviceConfig.name\<close> takes the argument unless it is \<open>None\<close>.
\<close>

definition OutlineServer ::
  "env \<Rightarrow> string \<Rightarrow> string option \<Rightarrow> string \<Rightarrow> thrown + server" where
  "OutlineServer E ident nameArg key =
     (case parseAccessKey E key of
        Inl e \<Rightarrow> Inl e
      | Inr serviceConfig \<Rightarrow>
          let name0 = (case nameArg of Some n \<Rightarrow> Some n | None \<Rightarrow> embeddedName serviceConfig)
          in (case serviceConfig of
                DynamicServiceConfig _ location \<Rightarrow>
                  Inr \<lparr> serverId = ident,
                        name = orDefault name0
                                 (if port location = ''443'' then hostname location
                                  else joinHostPort E (hostname location) (port location)),
                        accessKey = key,
                        serverType = DYNAMIC_CONNECTION,
                        tunnelConfigLocation = Some location,
                        displayAddress = [],
                        staticTunnelConfig = None,
                        errorMessageId = None \<rparr>
              | StaticServiceConfig _ cfg \<Rightarrow>
                  Inr \<lparr> serverId = ident,
                        name = orDefault name0
                                 (localize E (if includesStr key ''outline=1''
                                              then ''server-default-name-outline''
                                              else ''server-default-name'')),
                        accessKey = key,
                        serverType = STATIC_CONNECTION,
                        tunnelConfigLocation = None,
                        displayAddress =
                          joinHostPort E (host (firstHop cfg)) (toString (portNumber (firstHop cfg))),
                        staticTunnelConfig = Some cfg,
                        errorMessageId = None \<rparr>))"

text \<open>The getter \<^verbatim>\<open>address\<close>.\<close>

definition address :: "server \<Rightarrow> string" where
  "address s = displayAddress s"

subsection \<open>fetchTunnelConfig\<close>

text \<open>
  The fetch is outside the \<^verbatim>\<open>try\<close> block: what it throws leaves the function as it is.
  Reading \<^verbatim>\<open>configLocation.toString()\<close> of \<^verbatim>\<open>undefined\<close> throws a \<^verbatim>\<open>TypeError\<close>
  (\<open>undefinedTypeError\<close>, the value thrown by any read of a property of \<^verbatim>\<open>undefined\<close>
  or \<^verbatim>\<open>null\<close>).
\<close>

definition emptyConfigError :: thrown where
  "emptyConfigError = Thrown ServerAccessKeyInvalid ''Got empty config from dynamic key.'' None None"

definition parseFailedError :: "thrown \<Rightarrow> thrown" where
  "parseFailedError c =
     Thrown ServerAccessKeyInvalid
       ''Failed to parse VPN information fetched from dynamic access key.'' None (Some c)"

definition undefinedTypeError :: thrown where
  "undefinedTypeError = Thrown TypeError [] None None"

definition fetchTunnelConfig :: "env \<Rightarrow> url option \<Rightarrow> (thrown + tunnel_config) \<times> event list" where
  "fetchTunnelConfig E configLocation =
     (case configLocation of
        None \<Rightarrow> (Inl undefinedTypeError, [])
      | Some u \<Rightarrow>
          (case fetch E (href u) of
             Inl e \<Rightarrow> (Inl e, [Fetch (href u)])
           | Inr body \<Rightarrow>
               let responseBody = trim body
               in if responseBody = [] then (Inl emptyConfigError, [Fetch (href u)])
                  else (case parseTunnelConfig E responseBody of
                          Inr cfg \<Rightarrow> (Inr cfg, [Fetch (href u)])
                        | Inl c \<Rightarrow>
                            if cls c = SessionProviderError then (Inl c, [Fetch (href u)])
                            else (Inl (parseFailedError c), [Fetch (href u)]))))"

subsection \<open>connect and disconnect\<close>

definition proxyConnectionFailure :: "server \<Rightarrow> thrown \<Rightarrow> thrown" where
  "proxyConnectionFailure s c =
     Thrown ProxyConnectionFailure (''Failed to connect to server '' @ name s @ ''.'') None (Some c)"

text \<open>
  The \<^verbatim>\<open>catch\<close> block of \<^verbatim>\<open>connect\<close>: what is thrown for the value \<open>c\<close> caught.
  After the \<^verbatim>\<open>instanceof\<close> test the block reads \<^verbatim>\<open>cause.errorCode\<close> without a guard:
  for \<^verbatim>\<open>undefined\<close> and \<^verbatim>\<open>null\<close> that read throws a \<^verbatim>\<open>TypeError\<close>, which leaves
  \<^verbatim>\<open>connect\<close>. For any other value \<^verbatim>\<open>if (cause.errorCode)\<close> tests JavaScript
  truthiness: an absent property (\<^verbatim>\<open>undefined\<close>) and the number \<^verbatim>\<open>0\<close> are falsy.
\<close>

definition connectFailure :: "env \<Rightarrow> server \<Rightarrow> thrown \<Rightarrow> thrown" where
  "connectFailure E s c =
     (if cls c = PlatformError then c
      else (case c of
              Nullish \<Rightarrow> undefinedTypeError
            | Thrown _ _ code _ \<Rightarrow>
                (case code of
                   None \<Rightarrow> proxyConnectionFailure s c
                 | Some n \<Rightarrow> if n \<noteq> 0 then fromErrorCode E n else proxyConnectionFailure s c)))"

text \<open>The \<^verbatim>\<open>try\<close> statement of \<^verbatim>\<open>connect\<close>, after the calls \<open>tr\<close> made before it.\<close>

definition startTunnel ::
  "env \<Rightarrow> server \<Rightarrow> tunnel_config option \<Rightarrow> event list \<Rightarrow> (thrown + unit) \<times> server \<times> event list" where
  "startTunnel E s tunnelCfg tr =
     (let request = \<lparr> requestId = serverId s, requestName = name s, config = tunnelCfg \<rparr>
      in case start E request of
           None \<Rightarrow> (Inr (), s, tr @ [Start request])
         | Some c \<Rightarrow> (Inl (connectFailure E s c), s, tr @ [Start request]))"

definition connect :: "env \<Rightarrow> server \<Rightarrow> (thrown + unit) \<times> server \<times> event list" where
  "connect E s =
     (if serverType s = DYNAMIC_CONNECTION then
        (case fetchTunnelConfig E (tunnelConfigLocation s) of
           (Inl e, tr) \<Rightarrow> (Inl e, s, tr)
         | (Inr cfg, tr) \<Rightarrow>
             startTunnel E
               (s\<lparr>displayAddress :=
                    joinHostPort E (host (firstHop cfg)) (toString (portNumber (firstHop cfg)))\<rparr>)
               (Some cfg) tr)
      else startTunnel E s (staticTunnelConfig s) [])"

definition disconnect :: "env \<Rightarrow> server \<Rightarrow> (thrown + unit) \<times> server \<times> event list" where
  "disconnect E s =
     (case stop E (serverId s) of
        None \<Rightarrow>
          (Inr (),
           (if serverType s = DYNAMIC_CONNECTION then s\<lparr>displayAddress := []\<rparr> else s),
           [Stop (serverId s)])
      | Some e \<Rightarrow> (Inl (Thrown RegularNativeError [] None None), s, [Stop (serverId s)]))"

subsection \<open>Frame of connect and disconnect\<close>

text \<open>
  Two servers agree on every field other than \<^verbatim>\<open>displayAddress\<close>: \<^verbatim>\<open>id\<close>, \<^verbatim>\<open>type\<close>,
  \<^verbatim>\<open>name\<close>, \<^verbatim>\<open>accessKey\<close>, \<^verbatim>\<open>tunnelConfigLocation\<close>, \<^verbatim>\<open>staticTunnelConfig\<close> and
  \<^verbatim>\<open>errorMessageId\<close>.
\<close>

definition sameExceptAddress :: "server \<Rightarrow> server \<Rightarrow> bool" where
  "sameExceptAddress s s' =
     (serverId s' = serverId s \<and> serverType s' = serverType s \<and> name s' = name s \<and>
      accessKey s' = accessKey s \<and> tunnelConfigLocation s' = tunnelConfigLocation s \<and>
      staticTunnelConfig s' = staticTunnelConfig s \<and> errorMessageId s' = errorMessageId s)"

section \<open>Example values\<close>

text \<open>
  Concrete collaborators and servers, on which the theorems below are run. The
  environment is given what the fetcher returns, what the configuration parser returns
  and what the engine's start and stop return; its \<^verbatim>\<open>joinHostPort\<close> writes
  \<^verbatim>\<open>host:port\<close> for every port.
\<close>

definition exampleConfig :: tunnel_config where
  "exampleConfig = \<lparr> firstHop = \<lparr> host = ''proxy.example.com'', portNumber = 443 \<rparr>, transport = ''shadowsocks'' \<rparr>"

definition exampleLocation :: url where
  "exampleLocation = \<lparr> hostname = ''keys.example.com'', port = ''8443'', href = ''https://keys.example.com:8443/config'' \<rparr>"

definition exampleEnv :: "(thrown + string) \<Rightarrow> (thrown + tunnel_config) \<Rightarrow> thrown option \<Rightarrow> thrown option \<Rightarrow> env" where
  "exampleEnv fetched parsed started stopped =
     \<lparr> parseAccessKey = (\<lambda>k. if take 9 k = ''ssconf://'' then Inr (DynamicServiceConfig None exampleLocation)
                             else if take 5 k = ''ss://'' then Inr (StaticServiceConfig None exampleConfig)
                             else Inl (Thrown ServerAccessKeyInvalid ''Invalid static access key.'' None None)),
       localize = (\<lambda>k. if k = ''server-default-name-outline'' then ''Outline Server'' else ''Server''),
       joinHostPort = (\<lambda>h p. h @ '':'' @ p),
       fetch = (\<lambda>_. fetched),
       parseTunnelConfig = (\<lambda>_. parsed),
       start = (\<lambda>_. started),
       stop = (\<lambda>_. stopped),
       fromErrorCode = (\<lambda>n. Thrown OtherValue ''native error'' (Some n) None) \<rparr>"

definition exampleDynamic :: server where
  "exampleDynamic =
     \<lparr> serverId = ''server-0'', name = ''keys.example.com:8443'',
       accessKey = ''ssconf://keys.example.com:8443/config'',
       serverType = DYNAMIC_CONNECTION, tunnelConfigLocation = Some exampleLocation,
       displayAddress = [], staticTunnelConfig = None, errorMessageId = None \<rparr>"

definition exampleStatic :: server where
  "exampleStatic =
     \<lparr> serverId = ''server-1'', name = ''Outline Server'',
       accessKey = ''ss://secret@proxy.example.com:443/?outline=1'',
       serverType = STATIC_CONNECTION, tunnelConfigLocation = None,
       displayAddress = ''proxy.example.com:443'', staticTunnelConfig = Some exampleConfig,
       errorMessageId = None \<rparr>"

definition nativeObject :: "int option \<Rightarrow> thrown" where
  "nativeObject code = Thrown OtherValue ''native failure'' code None"

definition providerError :: thrown where
  "providerError = Thrown SessionProviderError ''unsupported transport'' None None"

definition syntaxError :: thrown where
  "syntaxError = Thrown OtherValue ''Unexpected token'' None None"

definition networkError :: thrown where
  "networkError = Thrown OtherValue ''Failed to fetch'' None None"

definition exampleConnected :: server where
  "exampleConnected = exampleDynamic\<lparr>displayAddress := ''proxy.example.com:443''\<rparr>"

text \<open>A parser of access keys that returns the given configuration for every key.\<close>

definition namedEnv :: "service_config \<Rightarrow> env" where
  "namedEnv sc = (exampleEnv (Inr []) (Inr exampleConfig) None None)\<lparr>parseAccessKey := (\<lambda>_. Inr sc)\<rparr>"

text \<open>
  The example environment with \<^verbatim>\<open>net.joinHostPort\<close> as the spec describes it, for the
  default port 443, and a configuration whose first hop has another port.
\<close>

definition specJoinEnv :: "(thrown + string) \<Rightarrow> (thrown + tunnel_config) \<Rightarrow> env" where
  "specJoinEnv fetched parsed =
     (exampleEnv fetched parsed None None)\<lparr>joinHostPort := joinHostPort_spec ''443''\<rparr>"

definition otherPortConfig :: tunnel_config where
  "otherPortConfig =
     \<lparr> firstHop = \<lparr> host = ''proxy.example.com'', portNumber = 8388 \<rparr>, transport = ''shadowsocks'' \<rparr>"

section \<open>Properties\<close>

subsection \<open>Auxiliary facts\<close>

lemma includesStr_Nil: "includesStr s []" by (cases s) simp_all
lemma includesStr_prefix: "includesStr (ys @ zs) ys" by (cases ys) (simp_all add: includesStr_Nil)
lemma includesStr_infix: "includesStr (xs @ ys @ zs) ys"
  by (induction xs) (simp_all add: includesStr_prefix)

lemmas example_defs = exampleEnv_def exampleDynamic_def exampleStatic_def exampleConfig_def
  exampleLocation_def nativeObject_def

lemma exampleDynamic_constructed:
  "OutlineServer (exampleEnv f p st sp) ''server-0'' None ''ssconf://keys.example.com:8443/config''
     = Inr exampleDynamic"
  by (simp add: OutlineServer_def example_defs orDefault_def)

lemma exampleStatic_constructed:
  "OutlineServer (exampleEnv f p st sp) ''server-1'' None ''ss://secret@proxy.example.com:443/?outline=1''
     = Inr exampleStatic"
  by (simp add: OutlineServer_def example_defs orDefault_def digit_def toString.simps)

lemma fetchTunnelConfig_events:
  "snd (fetchTunnelConfig E loc) = (case loc of None \<Rightarrow> [] | Some u \<Rightarrow> [Fetch (href u)])"
  by (simp add: fetchTunnelConfig_def Let_def split: option.split sum.split)

lemma startTunnel_result:
  "fst (startTunnel E s cfg tr) =
     (case start E \<lparr> requestId = serverId s, requestName = name s, config = cfg \<rparr> of
        None \<Rightarrow> Inr () | Some c \<Rightarrow> Inl (connectFailure E s c))"
  by (simp add: startTunnel_def Let_def split: option.split)

lemma startTunnel_server: "fst (snd (startTunnel E s cfg tr)) = s"
  by (simp add: startTunnel_def Let_def split: option.split)

lemma startTunnel_events:
  "snd (snd (startTunnel E s cfg tr)) =
     tr @ [Start \<lparr> requestId = serverId s, requestName = name s, config = cfg \<rparr>]"
  by (simp add: startTunnel_def Let_def split: option.split)

lemma connect_static:
  "serverType s \<noteq> DYNAMIC_CONNECTION \<Longrightarrow> connect E s = startTunnel E s (staticTunnelConfig s) []"
  by (simp add: connect_def)

lemma connect_dynamic_failed:
  "serverType s = DYNAMIC_CONNECTION \<Longrightarrow> fetchTunnelConfig E (tunnelConfigLocation s) = (Inl e, tr) \<Longrightarrow>
   connect E s = (Inl e, s, tr)"
  by (simp add: connect_def)

lemma connect_dynamic_resolved:
  "serverType s = DYNAMIC_CONNECTION \<Longrightarrow> fetchTunnelConfig E (tunnelConfigLocation s) = (Inr cfg, tr) \<Longrightarrow>
   connect E s =
     startTunnel E
       (s\<lparr>displayAddress := joinHostPort E (host (firstHop cfg)) (toString (portNumber (firstHop cfg)))\<rparr>)
       (Some cfg) tr"
  by (simp add: connect_def)

lemma connect_cases:
  obtains (static) "serverType s \<noteq> DYNAMIC_CONNECTION"
  | (failed) e tr where "serverType s = DYNAMIC_CONNECTION"
      "fetchTunnelConfig E (tunnelConfigLocation s) = (Inl e, tr)"
  | (resolved) cfg tr where "serverType s = DYNAMIC_CONNECTION"
      "fetchTunnelConfig E (tunnelConfigLocation s) = (Inr cfg, tr)"
proof (cases "serverType s = DYNAMIC_CONNECTION")
  case False
  then show ?thesis by (rule static)
next
  case True
  obtain r tr where f: "fetchTunnelConfig E (tunnelConfigLocation s) = (r, tr)"
    by (cases "fetchTunnelConfig E (tunnelConfigLocation s)")
  show ?thesis
  proof (cases r)
    case (Inl e)
    with True f show ?thesis by (auto intro: failed)
  next
    case (Inr cfg)
    with True f show ?thesis by (auto intro: resolved)
  qed
qed

lemma fetch_failed_events_no_start:
  "fetchTunnelConfig E loc = (r, tr) \<Longrightarrow> tr \<noteq> tr' @ [Start req]"
  using fetchTunnelConfig_events [of E loc] by (auto split: option.splits)

lemma connectFailure_displayAddress:
  "connectFailure E (s\<lparr>displayAddress := a\<rparr>) c = connectFailure E s c"
  by (cases c) (simp_all add: connectFailure_def proxyConnectionFailure_def split: option.split)

lemma connectFailure_Nullish: "connectFailure E s Nullish = undefinedTypeError"
  by (simp add: connectFailure_def)

lemma connect_events_start:
  assumes "snd (snd (connect E s)) = tr @ [Start req]"
  shows "fst (connect E s) =
     (case start E req of None \<Rightarrow> Inr () | Some c \<Rightarrow> Inl (connectFailure E s c))"
proof (cases rule: connect_cases [where s = s and E = E])
  case static
  with assms show ?thesis
    by (auto simp: connect_static startTunnel_events startTunnel_result)
next
  case (failed e tr0)
  with assms fetch_failed_events_no_start [OF failed(2), of tr req] show ?thesis
    by (simp add: connect_dynamic_failed)
next
  case (resolved cfg tr0)
  with assms show ?thesis
    by (auto simp: connect_dynamic_resolved startTunnel_events startTunnel_result
        connectFailure_displayAddress split: option.split)
qed

lemma exampleStatic_connect_events:
  "snd (snd (connect (exampleEnv f p st sp) exampleStatic)) =
     [] @ [Start \<lparr> requestId = ''server-1'', requestName = ''Outline Server'', config = Some exampleConfig \<rparr>]"
  by (simp add: connect_static startTunnel_events exampleStatic_def)

lemma fetchTunnelConfig_fetched:
  "fetch E (href u) = Inr body \<Longrightarrow>
   fst (fetchTunnelConfig E (Some u)) =
     (if trim body = [] then Inl emptyConfigError
      else case parseTunnelConfig E (trim body) of
             Inr cfg \<Rightarrow> Inr cfg
           | Inl c \<Rightarrow> if cls c = SessionProviderError then Inl c else Inl (parseFailedError c))"
  by (simp add: fetchTunnelConfig_def Let_def split: sum.split)

lemma trim_examples:
  "trim [CHR 0x20, CHR 0x0A, CHR 0x09] = []" "trim '' {} '' = ''{}''"
  by (simp_all add: trim_def isWhiteSpace_def)

lemma OutlineServer_dynamic:
  "parseAccessKey E key = Inr (DynamicServiceConfig n loc) \<Longrightarrow>
   OutlineServer E i nm key =
     Inr \<lparr> serverId = i,
           name = orDefault (case nm of Some x \<Rightarrow> Some x | None \<Rightarrow> n)
                    (if port loc = ''443'' then hostname loc
                     else joinHostPort E (hostname loc) (port loc)),
           accessKey = key, serverType = DYNAMIC_CONNECTION, tunnelConfigLocation = Some loc,
           displayAddress = [], staticTunnelConfig = None, errorMessageId = None \<rparr>"
  by (cases nm) (simp_all add: OutlineServer_def)

lemma OutlineServer_static:
  "parseAccessKey E key = Inr (StaticServiceConfig n cfg) \<Longrightarrow>
   OutlineServer E i nm key =
     Inr \<lparr> serverId = i,
           name = orDefault (case nm of Some x \<Rightarrow> Some x | None \<Rightarrow> n)
                    (localize E (if includesStr key ''outline=1''
                                 then ''server-default-name-outline'' else ''server-default-name'')),
           accessKey = key, serverType = STATIC_CONNECTION, tunnelConfigLocation = None,
           displayAddress =
             joinHostPort E (host (firstHop cfg)) (toString (portNumber (firstHop cfg))),
           staticTunnelConfig = Some cfg, errorMessageId = None \<rparr>"
  by (cases nm) (simp_all add: OutlineServer_def)

lemma connect_server:
  "fst (snd (connect E s)) =
     (if serverType s = DYNAMIC_CONNECTION then
        (case fst (fetchTunnelConfig E (tunnelConfigLocation s)) of
           Inl e \<Rightarrow> s
         | Inr cfg \<Rightarrow>
             s\<lparr>displayAddress :=
                 joinHostPort E (host (firstHop cfg)) (toString (portNumber (firstHop cfg)))\<rparr>)
      else s)"
proof (cases rule: connect_cases [where s = s and E = E])
  case static
  then show ?thesis by (simp add: connect_static startTunnel_server)
next
  case (failed e tr)
  then show ?thesis by (simp add: connect_dynamic_failed)
next
  case (resolved cfg tr)
  then show ?thesis by (simp add: connect_dynamic_resolved startTunnel_server)
qed

lemma connect_resolution_failed:
  "serverType s = DYNAMIC_CONNECTION \<Longrightarrow> fst (fetchTunnelConfig E (tunnelConfigLocation s)) = Inl e \<Longrightarrow>
   fst (connect E s) = Inl e"
  by (cases "fetchTunnelConfig E (tunnelConfigLocation s)") (simp add: connect_def)

lemma exampleDynamic_resolved:
  "fst (fetchTunnelConfig (exampleEnv (Inr ''{}'') (Inr exampleConfig) st sp) (Some exampleLocation))
     = Inr exampleConfig"
  by (simp add: fetchTunnelConfig_def exampleEnv_def trim_examples trim_def isWhiteSpace_def)

lemma exampleDynamic_empty_body:
  "fst (fetchTunnelConfig (exampleEnv (Inr []) p st sp) (Some exampleLocation)) = Inl emptyConfigError"
  by (simp add: fetchTunnelConfig_def exampleEnv_def trim_def)

lemma toString_443: "toString 443 = ''443''"
  by (simp add: toString.simps digit_def)

lemma connect_static_events:
  "serverType s = STATIC_CONNECTION \<Longrightarrow>
   snd (snd (connect E s)) =
     [Start \<lparr> requestId = serverId s, requestName = name s, config = staticTunnelConfig s \<rparr>]"
  by (simp add: connect_static startTunnel_events)

text \<open>
  A start that rejects with \<^verbatim>\<open>undefined\<close> or \<^verbatim>\<open>null\<close>: the read of
  \<^verbatim>\<open>cause.errorCode\<close> throws, and \<^verbatim>\<open>connect()\<close> throws that \<^verbatim>\<open>TypeError\<close>.
\<close>

lemma connect_start_failure_Nullish:
  assumes "snd (snd (connect E s)) = tr @ [Start req]" and "start E req = Some Nullish"
  shows "fst (connect E s) = Inl undefinedTypeError"
  using connect_events_start [OF assms(1)] assms(2) by (simp add: connectFailure_Nullish)

subsection \<open>Claim C1: classification of a failure of the engine's start\<close>

text \<open>
  Claim C1, as amended. When \<^verbatim>\<open>connect()\<close> has called the engine's start with the
  request \<open>req\<close> and the call failed with the value \<open>c\<close>, then, in this order: if \<open>c\<close>
  is a \<^verbatim>\<open>PlatformError\<close>, \<open>c\<close> itself is thrown; otherwise, if \<open>c\<close> is neither
  \<^verbatim>\<open>undefined\<close> nor \<^verbatim>\<open>null\<close> and has a truthy (non-zero) \<^verbatim>\<open>errorCode\<close>, the value of
  \<^verbatim>\<open>errors.fromErrorCode\<close> at that code is thrown; otherwise, if \<open>c\<close> is neither
  \<^verbatim>\<open>undefined\<close> nor \<^verbatim>\<open>null\<close> (and has no \<^verbatim>\<open>errorCode\<close>, or the code \<^verbatim>\<open>0\<close>), a
  \<^verbatim>\<open>ProxyConnectionFailure\<close> with the cause \<open>c\<close> is thrown, whose message is
  \<^verbatim>\<open>Failed to connect to server <name>.\<close> and so contains the server's name. The
  statement says nothing of a caught \<^verbatim>\<open>undefined\<close> or \<^verbatim>\<open>null\<close>.
\<close>

theorem connect_start_failure_classified:
  assumes "snd (snd (connect E s)) = tr @ [Start req]" and "start E req = Some c"
  shows "(cls c = PlatformError \<longrightarrow> fst (connect E s) = Inl c) \<and>
         (cls c \<noteq> PlatformError \<longrightarrow> c \<noteq> Nullish \<longrightarrow> errorCode c = Some n \<longrightarrow> n \<noteq> 0 \<longrightarrow>
            fst (connect E s) = Inl (fromErrorCode E n)) \<and>
         (cls c \<noteq> PlatformError \<longrightarrow> c \<noteq> Nullish \<longrightarrow>
            (errorCode c = None \<or> errorCode c = Some 0) \<longrightarrow>
            fst (connect E s) =
              Inl (Thrown ProxyConnectionFailure (''Failed to connect to server '' @ name s @ ''.'')
                     None (Some c)) \<and>
            includesStr (''Failed to connect to server '' @ name s @ ''.'') (name s))"
proof -
  have r: "fst (connect E s) = Inl (connectFailure E s c)"
    using connect_events_start [OF assms(1)] assms(2) by simp
  have i: "includesStr (''Failed to connect to server '' @ name s @ ''.'') (name s)"
    by (rule includesStr_infix)
  show ?thesis
  proof (cases c)
    case Nullish
    then show ?thesis by simp
  next
    case (Thrown k m code cz)
    with r i show ?thesis
      by (auto simp: connectFailure_def proxyConnectionFailure_def)
  qed
qed

text \<open>
  The theorem at a static server whose start fails with a \<^verbatim>\<open>PlatformError\<close>, with a native
  object of code 7, and with a native object without code.
\<close>

theorem connect_start_failure_classified_witness:
  "fst (connect (exampleEnv (Inr []) (Inr exampleConfig) (Some (Thrown PlatformError ''ERR_VPN'' None None)) None)
          exampleStatic)
     = Inl (Thrown PlatformError ''ERR_VPN'' None None) \<and>
   fst (connect (exampleEnv (Inr []) (Inr exampleConfig) (Some (nativeObject (Some 7))) None) exampleStatic)
     = Inl (Thrown OtherValue ''native error'' (Some 7) None) \<and>
   fst (connect (exampleEnv (Inr []) (Inr exampleConfig) (Some (nativeObject None)) None) exampleStatic)
     = Inl (Thrown ProxyConnectionFailure ''Failed to connect to server Outline Server.'' None
              (Some (nativeObject None))) \<and>
   includesStr ''Failed to connect to server Outline Server.'' ''Outline Server'' \<and>
   nativeObject (Some 7) \<noteq> Nullish \<and> nativeObject None \<noteq> Nullish"
  using
    connect_start_failure_classified [OF exampleStatic_connect_events,
      of "Inr []" "Inr exampleConfig" "Some (Thrown PlatformError ''ERR_VPN'' None None)" None
         "Thrown PlatformError ''ERR_VPN'' None None" 0]
    connect_start_failure_classified [OF exampleStatic_connect_events,
      of "Inr []" "Inr exampleConfig" "Some (nativeObject (Some 7))" None "nativeObject (Some 7)" 7]
    connect_start_failure_classified [OF exampleStatic_connect_events,
      of "Inr []" "Inr exampleConfig" "Some (nativeObject None)" None "nativeObject None" 0]
  by (simp add: exampleEnv_def exampleStatic_def nativeObject_def)

text \<open>
  Claim C1 as stated fails: a caught value that carries the \<^verbatim>\<open>errorCode\<close> field with the
  value \<^verbatim>\<open>0\<close> is not mapped by \<^verbatim>\<open>errors.fromErrorCode\<close>; \<^verbatim>\<open>connect()\<close> throws a
  \<^verbatim>\<open>ProxyConnectionFailure\<close> for it.
\<close>

theorem connect_falsy_errorCode_counterexample:
  "start (exampleEnv (Inr []) (Inr exampleConfig) (Some (nativeObject (Some 0))) None)
     \<lparr> requestId = ''server-1'', requestName = ''Outline Server'', config = Some exampleConfig \<rparr>
     = Some (nativeObject (Some 0)) \<and>
   cls (nativeObject (Some 0)) \<noteq> PlatformError \<and>
   nativeObject (Some 0) \<noteq> Nullish \<and>
   errorCode (nativeObject (Some 0)) = Some 0 \<and>
   fst (connect (exampleEnv (Inr []) (Inr exampleConfig) (Some (nativeObject (Some 0))) None) exampleStatic)
     \<noteq> Inl (fromErrorCode (exampleEnv (Inr []) (Inr exampleConfig) (Some (nativeObject (Some 0))) None) 0) \<and>
   fst (connect (exampleEnv (Inr []) (Inr exampleConfig) (Some (nativeObject (Some 0))) None) exampleStatic)
     = Inl (Thrown ProxyConnectionFailure ''Failed to connect to server Outline Server.'' None
              (Some (nativeObject (Some 0))))"
  by (simp add: connect_static startTunnel_result connectFailure_def proxyConnectionFailure_def
      exampleEnv_def exampleStatic_def nativeObject_def)

subsection \<open>Claim C2: failures of a fetched dynamic configuration\<close>

text \<open>
  Claim C2. When the fetch of \<^verbatim>\<open>fetchTunnelConfig\<close> returns a body, the body is trimmed.
  If the trimmed body is empty, the function throws \<^verbatim>\<open>ServerAccessKeyInvalid\<close> with the
  message \<^verbatim>\<open>Got empty config from dynamic key.\<close>, which mentions the empty config.
  Otherwise the trimmed body is parsed: a \<^verbatim>\<open>SessionProviderError\<close> thrown by the parser is
  thrown on as it is, and any other value thrown by the parser is thrown as the cause of
  a new \<^verbatim>\<open>ServerAccessKeyInvalid\<close>.
\<close>

theorem fetchTunnelConfig_body_errors:
  assumes "fetch E (href u) = Inr body"
  shows "(trim body = [] \<longrightarrow>
            fst (fetchTunnelConfig E (Some u)) =
              Inl (Thrown ServerAccessKeyInvalid ''Got empty config from dynamic key.'' None None) \<and>
            includesStr ''Got empty config from dynamic key.'' ''empty config'') \<and>
         (trim body \<noteq> [] \<longrightarrow> parseTunnelConfig E (trim body) = Inl c \<longrightarrow>
            cls c = SessionProviderError \<longrightarrow> fst (fetchTunnelConfig E (Some u)) = Inl c) \<and>
         (trim body \<noteq> [] \<longrightarrow> parseTunnelConfig E (trim body) = Inl c \<longrightarrow>
            cls c \<noteq> SessionProviderError \<longrightarrow>
            fst (fetchTunnelConfig E (Some u)) =
              Inl (Thrown ServerAccessKeyInvalid
                     ''Failed to parse VPN information fetched from dynamic access key.'' None (Some c)))"
  using fetchTunnelConfig_fetched [OF assms]
  by (simp add: emptyConfigError_def parseFailedError_def)

text \<open>
  The theorem at a body of white space only, at a parser that throws a
  \<^verbatim>\<open>SessionProviderError\<close> and at a parser that throws another value.
\<close>

theorem fetchTunnelConfig_body_errors_witness:
  "fst (fetchTunnelConfig (exampleEnv (Inr [CHR 0x20, CHR 0x0A, CHR 0x09]) (Inr exampleConfig) None None)
          (Some exampleLocation))
     = Inl (Thrown ServerAccessKeyInvalid ''Got empty config from dynamic key.'' None None) \<and>
   fst (fetchTunnelConfig (exampleEnv (Inr '' {} '') (Inl providerError) None None) (Some exampleLocation))
     = Inl providerError \<and>
   fst (fetchTunnelConfig (exampleEnv (Inr '' {} '') (Inl syntaxError) None None) (Some exampleLocation))
     = Inl (Thrown ServerAccessKeyInvalid
              ''Failed to parse VPN information fetched from dynamic access key.'' None (Some syntaxError))"
  using
    fetchTunnelConfig_body_errors [of "exampleEnv (Inr [CHR 0x20, CHR 0x0A, CHR 0x09]) (Inr exampleConfig) None None"
      exampleLocation "[CHR 0x20, CHR 0x0A, CHR 0x09]" providerError]
    fetchTunnelConfig_body_errors [of "exampleEnv (Inr '' {} '') (Inl providerError) None None"
      exampleLocation "'' {} ''" providerError]
    fetchTunnelConfig_body_errors [of "exampleEnv (Inr '' {} '') (Inl syntaxError) None None"
      exampleLocation "'' {} ''" syntaxError]
  by (simp add: exampleEnv_def trim_examples providerError_def syntaxError_def)

subsection \<open>Claim C3: the address of a dynamic server\<close>

text \<open>
  Claim C3, as amended. For a dynamic access key the address is the empty string right
  after construction. On a dynamic server, a \<^verbatim>\<open>connect()\<close> whose resolution
  (\<^verbatim>\<open>fetchTunnelConfig\<close>) fails throws that failure and leaves the address as it was; a
  \<^verbatim>\<open>connect()\<close> whose resolution succeeds sets the address to the first hop of the resolved
  configuration, before the engine's start is called and whatever start then returns.
\<close>

theorem dynamic_address_set_on_resolution:
  "(parseAccessKey E0 key = Inr (DynamicServiceConfig n loc) \<longrightarrow>
      (\<exists>s0. OutlineServer E0 i nm key = Inr s0 \<and> serverType s0 = DYNAMIC_CONNECTION \<and> address s0 = [])) \<and>
   (serverType s = DYNAMIC_CONNECTION \<longrightarrow>
      fst (fetchTunnelConfig E (tunnelConfigLocation s)) = Inl e \<longrightarrow>
      fst (connect E s) = Inl e \<and> address (fst (snd (connect E s))) = address s) \<and>
   (serverType s = DYNAMIC_CONNECTION \<longrightarrow>
      fst (fetchTunnelConfig E (tunnelConfigLocation s)) = Inr cfg \<longrightarrow>
      address (fst (snd (connect E s))) =
        joinHostPort E (host (firstHop cfg)) (toString (portNumber (firstHop cfg))))"
proof (intro conjI impI)
  assume "parseAccessKey E0 key = Inr (DynamicServiceConfig n loc)"
  then show "\<exists>s0. OutlineServer E0 i nm key = Inr s0 \<and> serverType s0 = DYNAMIC_CONNECTION \<and> address s0 = []"
    by (simp add: OutlineServer_dynamic address_def)
next
  assume "serverType s = DYNAMIC_CONNECTION"
    and "fst (fetchTunnelConfig E (tunnelConfigLocation s)) = Inl e"
  then show "fst (connect E s) = Inl e"
    by (rule connect_resolution_failed)
next
  assume "serverType s = DYNAMIC_CONNECTION"
    and "fst (fetchTunnelConfig E (tunnelConfigLocation s)) = Inl e"
  then show "address (fst (snd (connect E s))) = address s"
    by (simp add: connect_server)
next
  assume "serverType s = DYNAMIC_CONNECTION"
    and "fst (fetchTunnelConfig E (tunnelConfigLocation s)) = Inr cfg"
  then show "address (fst (snd (connect E s))) =
      joinHostPort E (host (firstHop cfg)) (toString (portNumber (firstHop cfg)))"
    by (simp add: connect_server address_def)
qed

text \<open>
  The theorem at the dynamic example server: constructed with an empty address, still
  empty after a \<^verbatim>\<open>connect()\<close> that fetched an empty body, and set after a
  \<^verbatim>\<open>connect()\<close> that resolved the configuration.
\<close>

theorem dynamic_address_set_on_resolution_witness:
  "OutlineServer (exampleEnv (Inr []) (Inr exampleConfig) None None) ''server-0'' None
      ''ssconf://keys.example.com:8443/config'' = Inr exampleDynamic \<and>
   serverType exampleDynamic = DYNAMIC_CONNECTION \<and>
   address exampleDynamic = [] \<and>
   fst (connect (exampleEnv (Inr []) (Inr exampleConfig) None None) exampleDynamic) = Inl emptyConfigError \<and>
   address (fst (snd (connect (exampleEnv (Inr []) (Inr exampleConfig) None None) exampleDynamic))) = [] \<and>
   address (fst (snd (connect (exampleEnv (Inr ''{}'') (Inr exampleConfig) None None) exampleDynamic)))
     = ''proxy.example.com:443''"
  using
    dynamic_address_set_on_resolution [of "exampleEnv (Inr []) (Inr exampleConfig) None None"
      "''ssconf://keys.example.com:8443/config''" None exampleLocation "''server-0''" None
      exampleDynamic "exampleEnv (Inr []) (Inr exampleConfig) None None" emptyConfigError exampleConfig]
    dynamic_address_set_on_resolution [of "exampleEnv (Inr []) (Inr exampleConfig) None None"
      "''ssconf://keys.example.com:8443/config''" None exampleLocation "''server-0''" None
      exampleDynamic "exampleEnv (Inr ''{}'') (Inr exampleConfig) None None" emptyConfigError exampleConfig]
    exampleDynamic_constructed [of "Inr []" "Inr exampleConfig" None None]
    exampleDynamic_empty_body [of "Inr exampleConfig" None None]
    exampleDynamic_resolved [of None None]
  by (simp add: exampleDynamic_def exampleEnv_def exampleConfig_def toString_443
      address_def)

text \<open>
  Claim C3 as stated fails: on a freshly constructed dynamic server, a \<^verbatim>\<open>connect()\<close> whose
  resolution succeeds and whose start fails throws a \<^verbatim>\<open>ProxyConnectionFailure\<close>, and the
  address is then the first hop's address, not the empty string.
\<close>

theorem dynamic_address_after_failed_start_counterexample:
  "OutlineServer (exampleEnv (Inr ''{}'') (Inr exampleConfig) (Some (nativeObject None)) None) ''server-0'' None
      ''ssconf://keys.example.com:8443/config'' = Inr exampleDynamic \<and>
   serverType exampleDynamic = DYNAMIC_CONNECTION \<and>
   address exampleDynamic = [] \<and>
   fst (connect (exampleEnv (Inr ''{}'') (Inr exampleConfig) (Some (nativeObject None)) None) exampleDynamic)
     = Inl (Thrown ProxyConnectionFailure ''Failed to connect to server keys.example.com:8443.'' None
              (Some (nativeObject None))) \<and>
   address (fst (snd (connect (exampleEnv (Inr ''{}'') (Inr exampleConfig) (Some (nativeObject None)) None)
                        exampleDynamic)))
     = ''proxy.example.com:443''"
proof -
  let ?E = "exampleEnv (Inr ''{}'') (Inr exampleConfig) (Some (nativeObject None)) None"
  have f: "fetchTunnelConfig ?E (tunnelConfigLocation exampleDynamic)
             = (Inr exampleConfig, [Fetch (href exampleLocation)])"
    by (simp add: fetchTunnelConfig_def exampleEnv_def exampleDynamic_def trim_def isWhiteSpace_def)
  have t: "serverType exampleDynamic = DYNAMIC_CONNECTION"
    by (simp add: exampleDynamic_def)
  have c: "connect ?E exampleDynamic =
      startTunnel ?E (exampleDynamic\<lparr>displayAddress := ''proxy.example.com:443''\<rparr>)
        (Some exampleConfig) [Fetch (href exampleLocation)]"
    by (simp add: connect_dynamic_resolved [OF t f])
       (simp add: exampleEnv_def exampleConfig_def toString_443)
  have r: "fst (connect ?E exampleDynamic)
     = Inl (Thrown ProxyConnectionFailure ''Failed to connect to server keys.example.com:8443.'' None
              (Some (nativeObject None)))"
    unfolding c
    by (simp add: startTunnel_result exampleEnv_def exampleDynamic_def nativeObject_def
        connectFailure_def proxyConnectionFailure_def)
  have a: "address (fst (snd (connect ?E exampleDynamic))) = ''proxy.example.com:443''"
    unfolding c by (simp add: startTunnel_server address_def)
  have a0: "address exampleDynamic = []"
    by (simp add: address_def exampleDynamic_def)
  show ?thesis
    using exampleDynamic_constructed [of "Inr ''{}''" "Inr exampleConfig" "Some (nativeObject None)" None]
      t a0 r a
    by simp
qed

subsection \<open>Claim C4: the address derived from a first hop\<close>

text \<open>
  Claim C4. The source passes the first hop's host and its port in decimal to
  \<^verbatim>\<open>net.joinHostPort\<close>, at construction for a static access key and in \<^verbatim>\<open>connect()\<close> for a
  dynamic server once the configuration is resolved (\<open>OutlineServer_static\<close>,
  \<open>connect_server\<close>). With \<^verbatim>\<open>net.joinHostPort\<close> as the spec describes it, for the default
  proxy port \<open>defaultPort\<close>, the address is then \<^verbatim>\<open>host:port\<close> of the first hop, and the
  host alone when the hop's port is the default port.
\<close>

theorem address_from_first_hop:
  assumes "joinHostPort E0 = joinHostPort_spec defaultPort"
    and "joinHostPort E = joinHostPort_spec defaultPort"
  shows
    "(parseAccessKey E0 key = Inr (StaticServiceConfig n cfg0) \<longrightarrow>
        (\<exists>s0. OutlineServer E0 i nm key = Inr s0 \<and>
              address s0 =
                (if toString (portNumber (firstHop cfg0)) = defaultPort then host (firstHop cfg0)
                 else host (firstHop cfg0) @ '':'' @ toString (portNumber (firstHop cfg0))))) \<and>
     (serverType s = DYNAMIC_CONNECTION \<longrightarrow>
        fst (fetchTunnelConfig E (tunnelConfigLocation s)) = Inr cfg \<longrightarrow>
        address (fst (snd (connect E s))) =
          (if toString (portNumber (firstHop cfg)) = defaultPort then host (firstHop cfg)
           else host (firstHop cfg) @ '':'' @ toString (portNumber (firstHop cfg))))"
proof (intro conjI impI)
  assume "parseAccessKey E0 key = Inr (StaticServiceConfig n cfg0)"
  then have "OutlineServer E0 i nm key =
      Inr \<lparr> serverId = i,
            name = orDefault (case nm of Some x \<Rightarrow> Some x | None \<Rightarrow> n)
                     (localize E0 (if includesStr key ''outline=1''
                                   then ''server-default-name-outline'' else ''server-default-name'')),
            accessKey = key, serverType = STATIC_CONNECTION, tunnelConfigLocation = None,
            displayAddress =
              joinHostPort E0 (host (firstHop cfg0)) (toString (portNumber (firstHop cfg0))),
            staticTunnelConfig = Some cfg0, errorMessageId = None \<rparr>"
    by (rule OutlineServer_static)
  then show "\<exists>s0. OutlineServer E0 i nm key = Inr s0 \<and>
      address s0 =
        (if toString (portNumber (firstHop cfg0)) = defaultPort then host (firstHop cfg0)
         else host (firstHop cfg0) @ '':'' @ toString (portNumber (firstHop cfg0)))"
    by (simp add: address_def assms(1) joinHostPort_spec_def)
next
  assume "serverType s = DYNAMIC_CONNECTION"
    and "fst (fetchTunnelConfig E (tunnelConfigLocation s)) = Inr cfg"
  then have "displayAddress (fst (snd (connect E s))) =
      joinHostPort E (host (firstHop cfg)) (toString (portNumber (firstHop cfg)))"
    by (simp add: connect_server)
  then show "address (fst (snd (connect E s))) =
      (if toString (portNumber (firstHop cfg)) = defaultPort then host (firstHop cfg)
       else host (firstHop cfg) @ '':'' @ toString (portNumber (firstHop cfg)))"
    by (simp add: address_def assms(2) joinHostPort_spec_def)
qed

text \<open>
  The theorem with the default port 443: at the static example key, whose first hop has
  the port 443, and at a \<^verbatim>\<open>connect()\<close> of the dynamic example server that resolves a
  configuration whose first hop has the port 8388.
\<close>

theorem address_from_first_hop_witness:
  "joinHostPort (specJoinEnv (Inr []) (Inr exampleConfig)) = joinHostPort_spec ''443'' \<and>
   joinHostPort (specJoinEnv (Inr ''{}'') (Inr otherPortConfig)) = joinHostPort_spec ''443'' \<and>
   (\<exists>s0. OutlineServer (specJoinEnv (Inr []) (Inr exampleConfig)) ''server-1'' None
            ''ss://secret@proxy.example.com:443/?outline=1'' = Inr s0 \<and>
         address s0 = ''proxy.example.com'') \<and>
   address (fst (snd (connect (specJoinEnv (Inr ''{}'') (Inr otherPortConfig)) exampleDynamic)))
     = ''proxy.example.com:8388''"
proof -
  have j: "\<And>f p. joinHostPort (specJoinEnv f p) = joinHostPort_spec ''443''"
    by (simp add: specJoinEnv_def)
  have k: "parseAccessKey (specJoinEnv (Inr []) (Inr exampleConfig))
             ''ss://secret@proxy.example.com:443/?outline=1''
           = Inr (StaticServiceConfig None exampleConfig)"
    by (simp add: specJoinEnv_def exampleEnv_def)
  have t: "serverType exampleDynamic = DYNAMIC_CONNECTION"
    by (simp add: exampleDynamic_def)
  have f: "fst (fetchTunnelConfig (specJoinEnv (Inr ''{}'') (Inr otherPortConfig))
                  (tunnelConfigLocation exampleDynamic)) = Inr otherPortConfig"
    by (simp add: fetchTunnelConfig_def specJoinEnv_def exampleEnv_def exampleDynamic_def
        trim_def isWhiteSpace_def)
  have p443: "toString (portNumber (firstHop exampleConfig)) = ''443''"
    by (simp add: exampleConfig_def toString_443)
  have p8388: "toString (portNumber (firstHop otherPortConfig)) = ''8388''"
    by (simp add: otherPortConfig_def toString.simps digit_def)
  show ?thesis
    using address_from_first_hop [OF j [of "Inr []" "Inr exampleConfig"]
          j [of "Inr ''{}''" "Inr otherPortConfig"],
        where key = "''ss://secret@proxy.example.com:443/?outline=1''" and n = None
          and ?cfg0.0 = exampleConfig and i = "''server-1''" and nm = None and s = exampleDynamic
          and cfg = otherPortConfig]
      j k t f
    by (simp add: p443 p8388) (simp add: exampleConfig_def otherPortConfig_def)
qed

subsection \<open>Claim C5: a failure of the fetch itself\<close>

text \<open>
  Claim C5, as amended. When the fetch of the configuration location of a dynamic server
  fails, the value it throws is what \<^verbatim>\<open>fetchTunnelConfig\<close> throws and what \<^verbatim>\<open>connect()\<close>
  throws, whatever its kind: it is never wrapped. The server is unchanged and the engine is
  not called.
\<close>

theorem fetch_failure_surfaced_unwrapped:
  assumes "serverType s = DYNAMIC_CONNECTION" and "tunnelConfigLocation s = Some u"
    and "fetch E (href u) = Inl e"
  shows "fetchTunnelConfig E (Some u) = (Inl e, [Fetch (href u)]) \<and>
         connect E s = (Inl e, s, [Fetch (href u)])"
proof -
  have f: "fetchTunnelConfig E (tunnelConfigLocation s) = (Inl e, [Fetch (href u)])"
    using assms(2,3) by (simp add: fetchTunnelConfig_def)
  show ?thesis
    using f assms(2) connect_dynamic_failed [OF assms(1) f] by simp
qed

text \<open>The theorem at a fetcher that throws a \<^verbatim>\<open>SessionProviderError\<close>.\<close>

theorem fetch_failure_surfaced_unwrapped_witness:
  "serverType exampleDynamic = DYNAMIC_CONNECTION \<and>
   tunnelConfigLocation exampleDynamic = Some exampleLocation \<and>
   fetch (exampleEnv (Inl providerError) (Inr exampleConfig) None None) (href exampleLocation)
     = Inl providerError \<and>
   connect (exampleEnv (Inl providerError) (Inr exampleConfig) None None) exampleDynamic
     = (Inl providerError, exampleDynamic, [Fetch ''https://keys.example.com:8443/config''])"
  using fetch_failure_surfaced_unwrapped [of exampleDynamic exampleLocation
      "exampleEnv (Inl providerError) (Inr exampleConfig) None None" providerError]
  by (simp add: exampleDynamic_def exampleEnv_def exampleLocation_def)

text \<open>
  Claim C5 as stated fails: a fetch failure that is not a \<^verbatim>\<open>SessionProviderError\<close> reaches
  the caller of \<^verbatim>\<open>connect()\<close> as the very value the fetcher threw, not wrapped in another
  error.
\<close>

theorem fetch_failure_not_wrapped_counterexample:
  "cls networkError \<noteq> SessionProviderError \<and>
   fetch (exampleEnv (Inl networkError) (Inr exampleConfig) None None) (href exampleLocation)
     = Inl networkError \<and>
   fst (connect (exampleEnv (Inl networkError) (Inr exampleConfig) None None) exampleDynamic)
     = Inl (Thrown OtherValue ''Failed to fetch'' None None)"
proof -
  let ?E = "exampleEnv (Inl networkError) (Inr exampleConfig) None None"
  have t: "serverType exampleDynamic = DYNAMIC_CONNECTION"
    by (simp add: exampleDynamic_def)
  have f: "fetchTunnelConfig ?E (tunnelConfigLocation exampleDynamic)
             = (Inl networkError, [Fetch (href exampleLocation)])"
    by (simp add: fetchTunnelConfig_def exampleEnv_def exampleDynamic_def)
  show ?thesis
    by (simp add: connect_dynamic_failed [OF t f]) (simp add: networkError_def exampleEnv_def)
qed

subsection \<open>Claim C6: disconnect when the engine's stop fails\<close>

text \<open>
  Claim C6. When the engine's stop fails, with any value \<open>e\<close>, \<^verbatim>\<open>disconnect()\<close> throws a
  new \<^verbatim>\<open>RegularNativeError\<close>, and the server, its address included, is unchanged.
\<close>

theorem disconnect_stop_failure:
  assumes "stop E (serverId s) = Some e"
  shows "fst (disconnect E s) = Inl (Thrown RegularNativeError [] None None) \<and>
         fst (snd (disconnect E s)) = s \<and>
         address (fst (snd (disconnect E s))) = address s"
  using assms by (simp add: disconnect_def)

text \<open>The theorem at a connected dynamic server whose stop fails with a native object.\<close>

theorem disconnect_stop_failure_witness:
  "stop (exampleEnv (Inr []) (Inr exampleConfig) None (Some (nativeObject (Some 7)))) (serverId exampleConnected)
     = Some (nativeObject (Some 7)) \<and>
   fst (disconnect (exampleEnv (Inr []) (Inr exampleConfig) None (Some (nativeObject (Some 7)))) exampleConnected)
     = Inl (Thrown RegularNativeError [] None None) \<and>
   address (fst (snd (disconnect (exampleEnv (Inr []) (Inr exampleConfig) None (Some (nativeObject (Some 7))))
                        exampleConnected)))
     = ''proxy.example.com:443''"
  using disconnect_stop_failure [of "exampleEnv (Inr []) (Inr exampleConfig) None (Some (nativeObject (Some 7)))"
      exampleConnected "nativeObject (Some 7)"]
  by (simp add: exampleEnv_def exampleConnected_def exampleDynamic_def address_def)

subsection \<open>Claim C7: disconnect when the engine's stop succeeds\<close>

text \<open>
  Claim C7. When the engine's stop succeeds, \<^verbatim>\<open>disconnect()\<close> returns; the address is then
  the empty string if the server is dynamic, and unchanged if the server is static.
\<close>

theorem disconnect_stop_success:
  assumes "stop E (serverId s) = None"
  shows "fst (disconnect E s) = Inr () \<and>
         (serverType s = DYNAMIC_CONNECTION \<longrightarrow> address (fst (snd (disconnect E s))) = []) \<and>
         (serverType s = STATIC_CONNECTION \<longrightarrow> address (fst (snd (disconnect E s))) = address s)"
  using assms by (simp add: disconnect_def address_def)

text \<open>The theorem at a connected dynamic server and at the static example server.\<close>

theorem disconnect_stop_success_witness:
  "stop (exampleEnv (Inr []) (Inr exampleConfig) None None) (serverId exampleConnected) = None \<and>
   serverType exampleConnected = DYNAMIC_CONNECTION \<and>
   address exampleConnected = ''proxy.example.com:443'' \<and>
   address (fst (snd (disconnect (exampleEnv (Inr []) (Inr exampleConfig) None None) exampleConnected))) = [] \<and>
   serverType exampleStatic = STATIC_CONNECTION \<and>
   address (fst (snd (disconnect (exampleEnv (Inr []) (Inr exampleConfig) None None) exampleStatic)))
     = ''proxy.example.com:443''"
  using
    disconnect_stop_success [of "exampleEnv (Inr []) (Inr exampleConfig) None None" exampleConnected]
    disconnect_stop_success [of "exampleEnv (Inr []) (Inr exampleConfig) None None" exampleStatic]
  by (simp add: exampleEnv_def exampleConnected_def exampleDynamic_def exampleStatic_def address_def)

subsection \<open>Claim C8: connect and disconnect change the address only\<close>

text \<open>
  Claim C8. After any \<^verbatim>\<open>connect()\<close> and after any \<^verbatim>\<open>disconnect()\<close>, returning or throwing,
  the fields \<^verbatim>\<open>id\<close>, \<^verbatim>\<open>type\<close>, \<^verbatim>\<open>name\<close>, \<^verbatim>\<open>accessKey\<close>, \<^verbatim>\<open>tunnelConfigLocation\<close>,
  \<^verbatim>\<open>staticTunnelConfig\<close> and \<^verbatim>\<open>errorMessageId\<close> of the server are what they were before:
  only \<^verbatim>\<open>displayAddress\<close> can differ.
\<close>

theorem connect_disconnect_frame:
  "sameExceptAddress s (fst (snd (connect E s))) \<and> sameExceptAddress s (fst (snd (disconnect E s)))"
proof
  show "sameExceptAddress s (fst (snd (connect E s)))"
  proof (cases rule: connect_cases [where s = s and E = E])
    case static
    then show ?thesis
      by (simp add: connect_static startTunnel_server sameExceptAddress_def)
  next
    case (failed e tr)
    then show ?thesis
      by (simp add: connect_dynamic_failed sameExceptAddress_def)
  next
    case (resolved cfg tr)
    then show ?thesis
      by (simp add: connect_dynamic_resolved startTunnel_server sameExceptAddress_def)
  qed
next
  show "sameExceptAddress s (fst (snd (disconnect E s)))"
    by (cases "stop E (serverId s)") (simp_all add: disconnect_def sameExceptAddress_def)
qed

subsection \<open>Claim C9: a static configuration is submitted as stored\<close>

text \<open>
  Claim C9. On a static server, \<^verbatim>\<open>connect()\<close> makes one call only, the engine's start, with
  the server's id and name and the stored static configuration: nothing is fetched and
  the configuration is not transformed. For a server constructed from a static access key
  the configuration submitted is exactly the one the key was parsed to.
\<close>

theorem static_connect_submits_stored_config:
  "(serverType s = STATIC_CONNECTION \<longrightarrow>
      snd (snd (connect E s)) =
        [Start \<lparr> requestId = serverId s, requestName = name s, config = staticTunnelConfig s \<rparr>]) \<and>
   (parseAccessKey E0 key = Inr (StaticServiceConfig n cfg) \<longrightarrow>
      (\<exists>s0. OutlineServer E0 i nm key = Inr s0 \<and> serverType s0 = STATIC_CONNECTION \<and>
            staticTunnelConfig s0 = Some cfg \<and>
            snd (snd (connect E s0)) =
              [Start \<lparr> requestId = i, requestName = name s0, config = Some cfg \<rparr>]))"
proof (intro conjI impI)
  assume "serverType s = STATIC_CONNECTION"
  then show "snd (snd (connect E s)) =
      [Start \<lparr> requestId = serverId s, requestName = name s, config = staticTunnelConfig s \<rparr>]"
    by (rule connect_static_events)
next
  assume p: "parseAccessKey E0 key = Inr (StaticServiceConfig n cfg)"
  obtain s0 where s0: "OutlineServer E0 i nm key = Inr s0" "serverType s0 = STATIC_CONNECTION"
    "staticTunnelConfig s0 = Some cfg" "serverId s0 = i"
    using OutlineServer_static [OF p, of i nm] by simp
  from connect_static_events [OF s0(2), of E] s0
  show "\<exists>s0. OutlineServer E0 i nm key = Inr s0 \<and> serverType s0 = STATIC_CONNECTION \<and>
      staticTunnelConfig s0 = Some cfg \<and>
      snd (snd (connect E s0)) = [Start \<lparr> requestId = i, requestName = name s0, config = Some cfg \<rparr>]"
    by simp
qed

text \<open>
  The theorem at the static example server, with a fetcher and a parser that would fail
  if they were called.
\<close>

theorem static_connect_submits_stored_config_witness:
  "OutlineServer (exampleEnv (Inr []) (Inr exampleConfig) None None) ''server-1'' None
      ''ss://secret@proxy.example.com:443/?outline=1'' = Inr exampleStatic \<and>
   serverType exampleStatic = STATIC_CONNECTION \<and>
   snd (snd (connect (exampleEnv (Inl networkError) (Inl syntaxError) None None) exampleStatic)) =
     [Start \<lparr> requestId = ''server-1'', requestName = ''Outline Server'', config = Some exampleConfig \<rparr>]"
  using
    static_connect_submits_stored_config [of exampleStatic
      "exampleEnv (Inl networkError) (Inl syntaxError) None None"
      "exampleEnv (Inr []) (Inr exampleConfig) None None"
      "''ss://secret@proxy.example.com:443/?outline=1''" None exampleConfig "''server-1''" None]
    exampleStatic_constructed [of "Inr []" "Inr exampleConfig" None None]
  by (simp add: exampleStatic_def exampleEnv_def)

subsection \<open>Claim C10: the name given at construction\<close>

text \<open>
  Claim C10. When the access key parses, the constructor returns a server whose name is:
  the name argument, if it is not null and not empty; else, if the argument is null, the
  name embedded in the parsed key, if there is one and it is not empty; and in every other
  case (the name so far is empty or absent) the default of the variant: for a dynamic key
  the hostname of the configuration location, or \<^verbatim>\<open>net.joinHostPort\<close> of hostname and port
  when the port of the URL is not \<^verbatim>\<open>443\<close>; for a static key the localized text of
  \<^verbatim>\<open>server-default-name-outline\<close> when the access key contains \<^verbatim>\<open>outline=1\<close>, and of
  \<^verbatim>\<open>server-default-name\<close> otherwise.
\<close>

theorem constructor_name_precedence:
  assumes "parseAccessKey E key = Inr sc"
  shows "\<exists>s. OutlineServer E i nm key = Inr s \<and>
     (\<forall>x. nm = Some x \<longrightarrow> x \<noteq> [] \<longrightarrow> name s = x) \<and>
     (\<forall>x. nm = None \<longrightarrow> embeddedName sc = Some x \<longrightarrow> x \<noteq> [] \<longrightarrow> name s = x) \<and>
     (nm = Some [] \<or> (nm = None \<and> (embeddedName sc = None \<or> embeddedName sc = Some [])) \<longrightarrow>
        name s =
          (case sc of
             DynamicServiceConfig _ loc \<Rightarrow>
               if port loc \<noteq> ''443'' then joinHostPort E (hostname loc) (port loc) else hostname loc
           | StaticServiceConfig _ _ \<Rightarrow>
               localize E (if includesStr key ''outline=1'' then ''server-default-name-outline''
                           else ''server-default-name'')))"
proof (cases sc)
  case (DynamicServiceConfig n loc)
  with assms show ?thesis
    by (auto simp: OutlineServer_dynamic orDefault_def)
next
  case (StaticServiceConfig n cfg)
  with assms show ?thesis
    by (auto simp: OutlineServer_static orDefault_def)
qed

text \<open>
  The theorem at a name argument, at an embedded name, at an empty name argument, and at
  the defaults of a static key without the marker and of dynamic keys with and without
  the port 443.
\<close>

theorem constructor_name_precedence_witness:
  "(\<exists>s. OutlineServer (namedEnv (StaticServiceConfig (Some ''Embedded'') exampleConfig)) ''server-1''
           (Some ''Home'') ''ss://secret@proxy.example.com:443/?outline=1'' = Inr s \<and> name s = ''Home'') \<and>
   (\<exists>s. OutlineServer (namedEnv (StaticServiceConfig (Some ''Embedded'') exampleConfig)) ''server-1''
           None ''ss://secret@proxy.example.com:443/?outline=1'' = Inr s \<and> name s = ''Embedded'') \<and>
   (\<exists>s. OutlineServer (namedEnv (StaticServiceConfig (Some ''Embedded'') exampleConfig)) ''server-1''
           (Some []) ''ss://secret@proxy.example.com:443/?outline=1'' = Inr s \<and> name s = ''Outline Server'') \<and>
   (\<exists>s. OutlineServer (namedEnv (StaticServiceConfig None exampleConfig)) ''server-1''
           None ''ss://secret@proxy.example.com:443/'' = Inr s \<and> name s = ''Server'') \<and>
   (\<exists>s. OutlineServer (namedEnv (DynamicServiceConfig (Some []) exampleLocation)) ''server-0''
           None ''ssconf://keys.example.com:8443/config'' = Inr s \<and> name s = ''keys.example.com:8443'') \<and>
   (\<exists>s. OutlineServer (namedEnv (DynamicServiceConfig None (exampleLocation\<lparr>port := ''443''\<rparr>))) ''server-0''
           None ''ssconf://keys.example.com:443/config'' = Inr s \<and> name s = ''keys.example.com'')"
  using
    constructor_name_precedence [of "namedEnv (StaticServiceConfig (Some ''Embedded'') exampleConfig)"
      "''ss://secret@proxy.example.com:443/?outline=1''" "StaticServiceConfig (Some ''Embedded'') exampleConfig"
      "''server-1''" "Some ''Home''"]
    constructor_name_precedence [of "namedEnv (StaticServiceConfig (Some ''Embedded'') exampleConfig)"
      "''ss://secret@proxy.example.com:443/?outline=1''" "StaticServiceConfig (Some ''Embedded'') exampleConfig"
      "''server-1''" None]
    constructor_name_precedence [of "namedEnv (StaticServiceConfig (Some ''Embedded'') exampleConfig)"
      "''ss://secret@proxy.example.com:443/?outline=1''" "StaticServiceConfig (Some ''Embedded'') exampleConfig"
      "''server-1''" "Some []"]
    constructor_name_precedence [of "namedEnv (StaticServiceConfig None exampleConfig)"
      "''ss://secret@proxy.example.com:443/''" "StaticServiceConfig None exampleConfig"
      "''server-1''" None]
    constructor_name_precedence [of "namedEnv (DynamicServiceConfig (Some []) exampleLocation)"
      "''ssconf://keys.example.com:8443/config''" "DynamicServiceConfig (Some []) exampleLocation"
      "''server-0''" None]
    constructor_name_precedence [of "namedEnv (DynamicServiceConfig None (exampleLocation\<lparr>port := ''443''\<rparr>))"
      "''ssconf://keys.example.com:443/config''" "DynamicServiceConfig None (exampleLocation\<lparr>port := ''443''\<rparr>)"
      "''server-0''" None]
  by (simp add: namedEnv_def exampleEnv_def exampleLocation_def)

end
